theory Spec2Isabelle
  imports Complex_Main "HOL-Library.AList"
begin

section \<open>The filter layer of \<open>vtki/filters.py\<close>\<close>

text \<open>
  The module is glue over the VTK kernel: every filter normalises its parameters,
  configures one VTK algorithm object, runs it and wraps the output. The embedding keeps
  the glue as it is written and records each kernel run symbolically: the value of type
  \<open>algorithm\<close> that a filter returns (wrapped) is the algorithm object as the
  filter configured it, so a theorem can read off which kernel was run, on which input and
  with which parameters. Nothing is assumed about what the kernel computes.

  A coordinate of the bounds, of an origin or of a normal is a finite double, modelled as
  the \<open>real\<close> it denotes. A value of a scalar array and a percent are
  \<open>pyfloat\<close> (a real or NaN). Where the module computes with floats
  (\<open>slice_along_axis\<close>), the float operations are a parameter of the model and
  their results are \<open>double\<close> (a finite number, an infinity or NaN), so that
  nothing is assumed about rounding or overflow. Exceptions are values of type
  \<open>error\<close>; a function that can raise returns \<open>error + 'a\<close>, with
  \<open>Inl\<close> the exception. A message built with \<open>str.format\<close> is carried
  as its template.
\<close>

subsection \<open>Python values\<close>

datatype error =
    KeyError string
  | IndexError
  | TypeError
  | ValueError
  | AssertionError string
  | RuntimeError string

text \<open>An argument that the source inspects with \<open>isinstance\<close>: a string, an
  integer, or a sequence of floats.\<close>

datatype pyarg = PyStr string | PyInt int | PySeq "real list"

datatype pyfloat = Finite real | NaN

text \<open>\<open>xs[i]\<close> on a Python sequence: a negative index counts from the end, an index
  out of range raises IndexError.\<close>

definition seq_item :: "'a list \<Rightarrow> int \<Rightarrow> error + 'a" where
  "seq_item xs i =
     (if 0 \<le> i \<and> i < int (length xs) then Inr (xs ! nat i)
      else if i < 0 \<and> - int (length xs) \<le> i then Inr (xs ! nat (int (length xs) + i))
      else Inl IndexError)"

text \<open>\<open>xs[i] = v\<close> on a Python list.\<close>

definition seq_assign :: "'a list \<Rightarrow> int \<Rightarrow> 'a \<Rightarrow> error + 'a list" where
  "seq_assign xs i v =
     (if 0 \<le> i \<and> i < int (length xs) then Inr (xs[nat i := v])
      else if i < 0 \<and> - int (length xs) \<le> i then Inr (xs[nat (int (length xs) + i) := v])
      else Inl IndexError)"

text \<open>\<open>str.lower\<close>, on ASCII letters.\<close>

definition lower_char :: "char \<Rightarrow> char" where
  "lower_char c =
     (case map_of (zip ''ABCDEFGHIJKLMNOPQRSTUVWXYZ'' ''abcdefghijklmnopqrstuvwxyz'') c of
        None \<Rightarrow> c
      | Some d \<Rightarrow> d)"

definition lower :: "string \<Rightarrow> string" where
  "lower s = map lower_char s"

subsection \<open>The dataset abstraction\<close>

text \<open>
  The dataset class and \<open>vtki.utilities\<close> are not part of the module. What the
  filters read from a dataset is a field of the record: the bounds (six floats, minimum
  and maximum per axis), the number of scalar arrays, the active scalar designation
  (field code and name; field code 0 is point data, 1 is cell data), the result of
  \<open>get_scalar(dataset, name, preference, info=True)\<close> (the array, if any, and its
  field code) and the result of \<open>dataset.get_data_range(arr, preference)\<close>, where an
  omitted preference is \<open>None\<close>.
\<close>

type_synonym scalar_info = "int \<times> string option"

record dataset =
  bounds :: "real \<times> real \<times> real \<times> real \<times> real \<times> real"
  n_scalars :: int
  active_scalar_info :: scalar_info
  get_scalar :: "string option \<Rightarrow> string \<Rightarrow> error + (pyfloat list option \<times> int option)"
  get_data_range :: "string option \<Rightarrow> string option \<Rightarrow> error + (pyfloat \<times> pyfloat)"

text \<open>\<open>dataset.bounds\<close> as the sequence the source indexes.\<close>

definition bounds_seq :: "dataset \<Rightarrow> real list" where
  "bounds_seq dataset =
     (case bounds dataset of (x0, x1, y0, y1, z0, z1) \<Rightarrow> [x0, x1, y0, y1, z0, z1])"

text \<open>Modelled from the spec: \<open>dataset.center\<close>, a property of the dataset class.
  The spec calls it the dataset's geometric center (three floats); it is the midpoint of
  the bounding box.\<close>

definition center :: "dataset \<Rightarrow> real list" where
  "center dataset =
     (case bounds dataset of
        (x0, x1, y0, y1, z0, z1) \<Rightarrow> [(x0 + x1) / 2, (y0 + y1) / 2, (z0 + z1) / 2])"

text \<open>Modelled from the spec: \<open>is_inside_bounds(point, bounds)\<close> of
  \<open>vtki.utilities\<close>. The spec requires the origin to lie within the dataset's
  bounding box: each coordinate lies between the minimum and the maximum of its axis,
  both included. A point with more coordinates than the box has axes is not inside.\<close>

fun is_inside_bounds :: "real list \<Rightarrow> real list \<Rightarrow> bool" where
  "is_inside_bounds [] bnds = True"
| "is_inside_bounds (p # point) (lower_b # upper_b # bnds) =
     (lower_b \<le> p \<and> p \<le> upper_b \<and> is_inside_bounds point bnds)"
| "is_inside_bounds (p # point) bnds = False"

text \<open>A dataset whose bounds are ordered on every axis. VTK reports the bounds of an
  empty dataset as \<open>(1, -1, 1, -1, 1, -1)\<close>; those are the degenerate ones.\<close>

definition ordered_bounds :: "dataset \<Rightarrow> bool" where
  "ordered_bounds dataset =
     (case bounds dataset of (x0, x1, y0, y1, z0, z1) \<Rightarrow> x0 \<le> x1 \<and> y0 \<le> y1 \<and> z0 \<le> z1)"

subsection \<open>Kernel algorithm objects and wrapped outputs\<close>

text \<open>\<open>vtkPlane\<close> with its normal and its origin set.\<close>

datatype plane = Plane (plane_normal: "real \<times> real \<times> real") (plane_origin: "real \<times> real \<times> real")

datatype threshold_rule =
    ThresholdBetween pyfloat pyfloat
  | ThresholdByLower pyfloat
  | ThresholdByUpper pyfloat

datatype contour_values =
    GenerateValues int "pyfloat \<times> pyfloat"
  | SetValues "real list"

text \<open>
  A configured and updated algorithm object, and the dataset that wraps its output. The
  arguments of each constructor are the input and the parameters set on the object, in
  the order the source sets them. \<open>vtkCutter\<close> carries the state of its
  GenerateTriangles flag, which VTK switches on by default. A wrapped output carries the
  metadata copied onto it, \<open>None\<close> when none was copied.
\<close>

datatype algorithm =
    vtkClipDataSet dataset plane bool
  | vtkCutter dataset plane bool
  | vtkThreshold dataset "int option" "string option" bool threshold_rule
  | vtkAppendFilter "wrapped list"
  | vtkOutlineFilter dataset bool
  | vtkOutlineCornerFilter dataset real
  | vtkGeometryFilter dataset
  | vtkExtractEdges dataset
  | vtkElevationFilter dataset "pyfloat list" "real list" "real list"
  | vtkContourFilter dataset bool bool bool "int option" "string option" contour_values
  | vtkTextureMapToPlane "real list" "real list" "real list" dataset
and wrapped = Wrapped (vtk_object: algorithm) (meta: "scalar_info option")

text \<open>\<open>algorithm.GetInputDataObject(0, 0)\<close>, as far as \<open>_get_output\<close> uses
  it: the metadata of the first input.\<close>

fun input_meta :: "algorithm \<Rightarrow> scalar_info option" where
  "input_meta (vtkClipDataSet d _ _) = Some (active_scalar_info d)"
| "input_meta (vtkCutter d _ _) = Some (active_scalar_info d)"
| "input_meta (vtkThreshold d _ _ _ _) = Some (active_scalar_info d)"
| "input_meta (vtkAppendFilter []) = None"
| "input_meta (vtkAppendFilter (t # ts)) = meta t"
| "input_meta (vtkOutlineFilter d _) = Some (active_scalar_info d)"
| "input_meta (vtkOutlineCornerFilter d _) = Some (active_scalar_info d)"
| "input_meta (vtkGeometryFilter d) = Some (active_scalar_info d)"
| "input_meta (vtkExtractEdges d) = Some (active_scalar_info d)"
| "input_meta (vtkElevationFilter d _ _ _) = Some (active_scalar_info d)"
| "input_meta (vtkContourFilter d _ _ _ _ _ _) = Some (active_scalar_info d)"
| "input_meta (vtkTextureMapToPlane _ _ _ d) = Some (active_scalar_info d)"

text \<open>Modelled from the spec: \<open>wrap\<close> of \<open>vtki.utilities\<close>, the dataset
  wrapping collaborator. It converts a raw kernel output into the dataset abstraction; it
  sees the raw output only, so the result carries no metadata of the input.\<close>

definition wrap :: "algorithm \<Rightarrow> wrapped" where
  "wrap alg = Wrapped alg None"

text \<open>Modelled from the spec: \<open>copy_meta_from\<close> of the dataset class copies the
  bookkeeping metadata (the active scalar designation) of another object onto this
  one.\<close>

definition copy_meta_from :: "wrapped \<Rightarrow> scalar_info option \<Rightarrow> wrapped" where
  "copy_meta_from data ido = Wrapped (vtk_object data) ido"

text \<open>Modelled from the spec: \<open>set_active_scalar\<close> of the dataset class marks the
  named array of the preferred field as the active scalar.\<close>

definition set_active_scalar :: "wrapped \<Rightarrow> string \<Rightarrow> string \<Rightarrow> wrapped" where
  "set_active_scalar data name preference =
     Wrapped (vtk_object data) (Some (if preference = ''point'' then 0 else 1, Some name))"

subsection \<open>Module-level helpers\<close>

definition NORMALS :: "string \<rightharpoonup> real list" where
  "NORMALS = map_of
     [(''x'', [1, 0, 0]),
      (''y'', [0, 1, 0]),
      (''z'', [0, 0, 1]),
      (''-x'', [-1, 0, 0]),
      (''-y'', [0, -1, 0]),
      (''-z'', [0, 0, -1])]"

definition get_output :: "algorithm \<Rightarrow> string option \<Rightarrow> string \<Rightarrow> wrapped" where
  "get_output alg active_scalar active_scalar_field =
     (let ido = input_meta alg;
          data = wrap alg;
          data = copy_meta_from data ido
      in case active_scalar of
           None \<Rightarrow> data
         | Some name \<Rightarrow> set_active_scalar data name active_scalar_field)"

text \<open>\<open>normal[k]\<close> for the three components passed to \<open>SetNormal\<close>: an integer
  is not subscriptable; the items of a string are strings, which \<open>SetNormal\<close>
  rejects.\<close>

definition normal_item :: "pyarg \<Rightarrow> int \<Rightarrow> error + real" where
  "normal_item normal k =
     (case normal of
        PySeq v \<Rightarrow> seq_item v k
      | PyInt _ \<Rightarrow> Inl TypeError
      | PyStr s \<Rightarrow> (case seq_item s k of Inl e \<Rightarrow> Inl e | Inr _ \<Rightarrow> Inl TypeError))"

definition generate_plane :: "pyarg \<Rightarrow> real list \<Rightarrow> error + plane" where
  "generate_plane normal origin =
     (case normal_item normal 0 of Inl e \<Rightarrow> Inl e | Inr n0 \<Rightarrow>
     (case normal_item normal 1 of Inl e \<Rightarrow> Inl e | Inr n1 \<Rightarrow>
     (case normal_item normal 2 of Inl e \<Rightarrow> Inl e | Inr n2 \<Rightarrow>
     (case seq_item origin 0 of Inl e \<Rightarrow> Inl e | Inr o0 \<Rightarrow>
     (case seq_item origin 1 of Inl e \<Rightarrow> Inl e | Inr o1 \<Rightarrow>
     (case seq_item origin 2 of Inl e \<Rightarrow> Inl e | Inr o2 \<Rightarrow>
        Inr (Plane (n0, n1, n2) (o0, o1, o2))))))))"

subsection \<open>Clip and slice\<close>

definition clip :: "dataset \<Rightarrow> pyarg \<Rightarrow> real list option \<Rightarrow> bool \<Rightarrow> error + wrapped" where
  "clip dataset normal origin invert =
     (case (case normal of
              PyStr s \<Rightarrow>
                (case NORMALS (lower s) of
                   None \<Rightarrow> Inl (KeyError (lower s))
                 | Some v \<Rightarrow> Inr (PySeq v))
            | _ \<Rightarrow> Inr normal) of
        Inl e \<Rightarrow> Inl e
      | Inr normal \<Rightarrow>
          (let origin = (case origin of None \<Rightarrow> center dataset | Some p \<Rightarrow> p) in
           case generate_plane normal origin of
             Inl e \<Rightarrow> Inl e
           | Inr plane \<Rightarrow> Inr (get_output (vtkClipDataSet dataset plane invert) None ''point'')))"

definition slice :: "dataset \<Rightarrow> pyarg \<Rightarrow> real list option \<Rightarrow> bool \<Rightarrow> error + wrapped" where
  "slice dataset normal origin generate_triangles =
     (case (case normal of
              PyStr s \<Rightarrow>
                (case NORMALS (lower s) of
                   None \<Rightarrow> Inl (KeyError (lower s))
                 | Some v \<Rightarrow> Inr (PySeq v))
            | _ \<Rightarrow> Inr normal) of
        Inl e \<Rightarrow> Inl e
      | Inr normal \<Rightarrow>
          (let origin = (case origin of None \<Rightarrow> center dataset | Some p \<Rightarrow> p) in
           if \<not> is_inside_bounds origin (bounds_seq dataset)
           then Inl (AssertionError ''Slice is outside data bounds.'')
           else
             case generate_plane normal origin of
               Inl e \<Rightarrow> Inl e
             | Inr plane \<Rightarrow>
                 Inr (get_output (vtkCutter dataset plane generate_triangles) None ''point'')))"

subsection \<open>Slices along an axis\<close>

text \<open>Modelled from the spec: \<open>vtki.MultiBlock\<close>, an ordered collection of
  (index, label, dataset) triples with unique indices. \<open>output[i, name] = data\<close> is
  \<open>AList.update i (name, data) output\<close>: it replaces the block at index \<open>i\<close>
  or adds it at the end.\<close>

type_synonym multiblock = "(nat \<times> string \<times> wrapped) list"

text \<open>A double as float arithmetic produces it: a finite number, an infinity or
  NaN.\<close>

datatype double = Fin real | PosInf | NegInf | NotANumber

text \<open>
  Python's float arithmetic and \<open>np.linspace\<close> are not code of the module. They
  are a parameter of \<open>slice_along_axis\<close>: addition, subtraction and multiplication
  of doubles, the double that the literal \<open>0.01\<close> denotes, and
  \<open>np.linspace(start, stop, num)\<close>. A theorem that holds for every such parameter
  holds for the arithmetic of the machine, with its rounding and its overflow.
\<close>

record float_arith =
  fl_add :: "double \<Rightarrow> double \<Rightarrow> double"
  fl_sub :: "double \<Rightarrow> double \<Rightarrow> double"
  fl_mul :: "double \<Rightarrow> double \<Rightarrow> double"
  fl_0_01 :: double
  np_linspace :: "double \<Rightarrow> double \<Rightarrow> int \<Rightarrow> error + double list"

text \<open>
  \<open>slice\<close> at an origin one of whose coordinates is an infinity or NaN: the normal
  is resolved first; then the bounds check fails, since no comparison of NaN with a bound
  holds and an infinity is beyond every bound. This is the error raised.
\<close>

definition slice_nonfinite :: "pyarg \<Rightarrow> error" where
  "slice_nonfinite normal =
     (case normal of
        PyStr s \<Rightarrow>
          (case NORMALS (lower s) of
             None \<Rightarrow> KeyError (lower s)
           | Some v \<Rightarrow> AssertionError ''Slice is outside data bounds.'')
      | _ \<Rightarrow> AssertionError ''Slice is outside data bounds.'')"

text \<open>The decimal digits of a natural number, and \<open>'%.2d' % i\<close>: at least two
  digits, padded with a zero.\<close>

fun decimal :: "nat \<Rightarrow> string" where
  "decimal i =
     (if i < 10 then [''0123456789'' ! i]
      else decimal (i div 10) @ [''0123456789'' ! (i mod 10)])"

declare decimal.simps [simp del]

definition fmt_2d :: "nat \<Rightarrow> string" where
  "fmt_2d i = (if i < 10 then CHR ''0'' # decimal i else decimal i)"

text \<open>The loop \<open>for i in range(n)\<close> of \<open>slice_along_axis\<close>, over the indices
  still to visit; its state is the list \<open>center\<close> and the output. A sample that
  is not finite is assigned to \<open>center[ax]\<close> like any other (the index is checked),
  and \<open>slice\<close> then raises.\<close>

fun slice_loop ::
  "dataset \<Rightarrow> pyarg \<Rightarrow> int \<Rightarrow> double list \<Rightarrow> bool \<Rightarrow> nat list \<Rightarrow> real list \<Rightarrow> multiblock
     \<Rightarrow> error + multiblock" where
  "slice_loop dataset axis ax rng generate_triangles [] cntr output = Inr output"
| "slice_loop dataset axis ax rng generate_triangles (i # rest) cntr output =
     (case seq_item rng (int i) of Inl e \<Rightarrow> Inl e | Inr v \<Rightarrow>
     (case v of
        Fin x \<Rightarrow>
          (case seq_assign cntr ax x of Inl e \<Rightarrow> Inl e | Inr cntr \<Rightarrow>
          (case slice dataset axis (Some cntr) generate_triangles of Inl e \<Rightarrow> Inl e | Inr slc \<Rightarrow>
             slice_loop dataset axis ax rng generate_triangles rest cntr
               (AList.update i (''slice'' @ fmt_2d i, slc) output)))
      | _ \<Rightarrow>
          (case seq_assign cntr ax 0 of Inl e \<Rightarrow> Inl e | Inr _ \<Rightarrow>
             Inl (slice_nonfinite axis))))"

text \<open>An axis that is neither a string nor an integer (a sequence) cannot index the
  bounds: a TypeError. The first argument is the float arithmetic.\<close>

definition slice_along_axis ::
  "float_arith \<Rightarrow> dataset \<Rightarrow> int \<Rightarrow> pyarg \<Rightarrow> real option \<Rightarrow> bool \<Rightarrow> error + multiblock" where
  "slice_along_axis fa dataset n axis tolerance generate_triangles =
     (case (case axis of
              PyStr s \<Rightarrow>
                (case map_of [(''x'', 0), (''y'', 1), (''z'', 2)] s of
                   None \<Rightarrow> Inl (RuntimeError ''Axis ({}) not understood'')
                 | Some k \<Rightarrow> Inr k)
            | PyInt k \<Rightarrow> Inr k
            | PySeq _ \<Rightarrow> Inl TypeError) of
        Inl e \<Rightarrow> Inl e
      | Inr ax \<Rightarrow>
        (case (case tolerance of
                 None \<Rightarrow>
                   (case seq_item (bounds_seq dataset) (ax * 2 + 1) of Inl e \<Rightarrow> Inl e | Inr hi \<Rightarrow>
                   (case seq_item (bounds_seq dataset) (ax * 2) of Inl e \<Rightarrow> Inl e | Inr lo \<Rightarrow>
                      Inr (fl_mul fa (fl_sub fa (Fin hi) (Fin lo)) (fl_0_01 fa))))
               | Some t \<Rightarrow> Inr (Fin t)) of
           Inl e \<Rightarrow> Inl e
         | Inr tolerance \<Rightarrow>
           (case seq_item (bounds_seq dataset) (ax * 2) of Inl e \<Rightarrow> Inl e | Inr lo \<Rightarrow>
           (case seq_item (bounds_seq dataset) (ax * 2 + 1) of Inl e \<Rightarrow> Inl e | Inr hi \<Rightarrow>
           (case np_linspace fa (fl_add fa (Fin lo) tolerance) (fl_sub fa (Fin hi) tolerance) n of
              Inl e \<Rightarrow> Inl e
            | Inr rng \<Rightarrow>
                slice_loop dataset axis ax rng generate_triangles [0..<nat n]
                  (center dataset) [])))))"



subsection \<open>Threshold\<close>

text \<open>The \<open>value\<close> argument: omitted, a single float, or an iterable of floats.\<close>

datatype value_arg = NoValue | Single pyfloat | Iter "pyfloat list"

text \<open>\<open>np.nanmin\<close> and \<open>np.nanmax\<close>: the minimum and the maximum of the entries
  that are not NaN; NaN when every entry is NaN; a ValueError on an empty array.\<close>

definition finite_values :: "pyfloat list \<Rightarrow> real list" where
  "finite_values arr = concat (map (\<lambda>v. case v of Finite x \<Rightarrow> [x] | NaN \<Rightarrow> []) arr)"

definition nanmin :: "pyfloat list \<Rightarrow> error + pyfloat" where
  "nanmin arr =
     (if arr = [] then Inl ValueError
      else case finite_values arr of
             [] \<Rightarrow> Inr NaN
           | x # xs \<Rightarrow> Inr (Finite (fold min xs x)))"

definition nanmax :: "pyfloat list \<Rightarrow> error + pyfloat" where
  "nanmax arr =
     (if arr = [] then Inl ValueError
      else case finite_values arr of
             [] \<Rightarrow> Inr NaN
           | x # xs \<Rightarrow> Inr (Finite (fold max xs x)))"

function threshold ::
  "dataset \<Rightarrow> value_arg \<Rightarrow> string option \<Rightarrow> bool \<Rightarrow> bool \<Rightarrow> string \<Rightarrow> error + wrapped" where
  "threshold dataset val scalars invert use_continuous preference =
     (let scalars = (case scalars of None \<Rightarrow> snd (active_scalar_info dataset) | Some s \<Rightarrow> Some s) in
      case get_scalar dataset scalars preference of
        Inl e \<Rightarrow> Inl e
      | Inr (None, field) \<Rightarrow> Inl (AssertionError ''No arrays present to threshold.'')
      | Inr (Some arr, field) \<Rightarrow>
          if (case val of Iter _ \<Rightarrow> True | _ \<Rightarrow> False) \<and> invert then
            (case nanmin arr of Inl e \<Rightarrow> Inl e | Inr amin \<Rightarrow>
            (case nanmax arr of Inl e \<Rightarrow> Inl e | Inr amax \<Rightarrow>
            (case seq_item (case val of Iter vs \<Rightarrow> vs | _ \<Rightarrow> []) 0 of Inl e \<Rightarrow> Inl e | Inr v0 \<Rightarrow>
            (case threshold dataset (Iter [amin, v0]) scalars False use_continuous preference of
               Inl e \<Rightarrow> Inl e | Inr t1 \<Rightarrow>
            (case seq_item (case val of Iter vs \<Rightarrow> vs | _ \<Rightarrow> []) 1 of Inl e \<Rightarrow> Inl e | Inr v1 \<Rightarrow>
            (case threshold dataset (Iter [v1, amax]) scalars False use_continuous preference of
               Inl e \<Rightarrow> Inl e | Inr t2 \<Rightarrow>
               Inr (get_output (vtkAppendFilter [t1, t2]) None ''point'')))))))
          else
            (case (case val of
                     NoValue \<Rightarrow>
                       (case get_data_range dataset scalars None of
                          Inl e \<Rightarrow> Inl e
                        | Inr (dmin, dmax) \<Rightarrow> Inr (Iter [dmin, dmax]))
                   | _ \<Rightarrow> Inr val) of
               Inl e \<Rightarrow> Inl e
             | Inr (Iter vs) \<Rightarrow>
                 if length vs \<noteq> 2
                 then Inl (AssertionError
                   ''Value range must be length one for a float value or two for min/max; not ({}).'')
                 else Inr (get_output
                   (vtkThreshold dataset field scalars use_continuous (ThresholdBetween (vs ! 0) (vs ! 1)))
                   None ''point'')
             | Inr (Single v) \<Rightarrow>
                 Inr (get_output
                   (vtkThreshold dataset field scalars use_continuous
                      (if invert then ThresholdByLower v else ThresholdByUpper v))
                   None ''point'')
             | Inr NoValue \<Rightarrow> Inl TypeError))"
  by pat_completeness auto
termination
  by (relation "measure (\<lambda>(dataset, val, scalars, invert, use_continuous, preference). if invert then 1 else 0)")
     auto

declare threshold.simps [simp del]

subsection \<open>Threshold by percent\<close>

text \<open>Float arithmetic on array-derived values: NaN propagates.\<close>

fun fadd :: "pyfloat \<Rightarrow> pyfloat \<Rightarrow> pyfloat" where
  "fadd (Finite a) (Finite b) = Finite (a + b)"
| "fadd _ _ = NaN"

fun fsub :: "pyfloat \<Rightarrow> pyfloat \<Rightarrow> pyfloat" where
  "fsub (Finite a) (Finite b) = Finite (a - b)"
| "fsub _ _ = NaN"

fun fmul :: "pyfloat \<Rightarrow> pyfloat \<Rightarrow> pyfloat" where
  "fmul (Finite a) (Finite b) = Finite (a * b)"
| "fmul _ _ = NaN"

text \<open>Comparison of a float with a number, and its division by one: every comparison
  with NaN is false, and NaN divided is NaN.\<close>

fun f_ge :: "pyfloat \<Rightarrow> real \<Rightarrow> bool" where
  "f_ge (Finite a) b = (a \<ge> b)"
| "f_ge NaN b = False"

fun f_gt :: "pyfloat \<Rightarrow> real \<Rightarrow> bool" where
  "f_gt (Finite a) b = (a > b)"
| "f_gt NaN b = False"

fun f_lt :: "pyfloat \<Rightarrow> real \<Rightarrow> bool" where
  "f_lt (Finite a) b = (a < b)"
| "f_lt NaN b = False"

fun fdiv :: "pyfloat \<Rightarrow> real \<Rightarrow> pyfloat" where
  "fdiv (Finite a) b = Finite (a / b)"
| "fdiv NaN b = NaN"

text \<open>The \<open>percent\<close> argument: a float (possibly NaN) or an iterable of floats.\<close>

datatype percent_arg = Percent pyfloat | PercentSeq "pyfloat list"

definition check_percent :: "pyfloat \<Rightarrow> error + pyfloat" where
  "check_percent percent =
     (case (if f_ge percent 1
            then (let percent = fdiv percent 100 in
                  if f_gt percent 1
                  then Inl (RuntimeError ''Percentage ({}) is out of range (0, 1).'')
                  else Inr percent)
            else Inr percent) of
        Inl e \<Rightarrow> Inl e
      | Inr percent \<Rightarrow>
          if f_lt percent (1 / 10 ^ 10)
          then Inl (RuntimeError ''Percentage ({}) is too close to zero or negative.'')
          else Inr percent)"

definition get_val :: "pyfloat \<Rightarrow> pyfloat \<Rightarrow> pyfloat \<Rightarrow> error + pyfloat" where
  "get_val percent dmin dmax =
     (case check_percent percent of
        Inl e \<Rightarrow> Inl e
      | Inr percent \<Rightarrow> Inr (fadd dmin (fmul percent (fsub dmax dmin))))"

definition threshold_percent ::
  "dataset \<Rightarrow> percent_arg \<Rightarrow> string option \<Rightarrow> bool \<Rightarrow> bool \<Rightarrow> string \<Rightarrow> error + wrapped" where
  "threshold_percent dataset percent scalars invert use_continuous preference =
     (let tscalars = (case scalars of None \<Rightarrow> snd (active_scalar_info dataset) | Some s \<Rightarrow> Some s) in
      case get_data_range dataset tscalars (Some preference) of
        Inl e \<Rightarrow> Inl e
      | Inr (dmin, dmax) \<Rightarrow>
          (case (case percent of
                   PercentSeq ps \<Rightarrow>
                     (case seq_item ps 0 of Inl e \<Rightarrow> Inl e | Inr p0 \<Rightarrow>
                     (case get_val p0 dmin dmax of Inl e \<Rightarrow> Inl e | Inr a \<Rightarrow>
                     (case seq_item ps 1 of Inl e \<Rightarrow> Inl e | Inr p1 \<Rightarrow>
                     (case get_val p1 dmin dmax of Inl e \<Rightarrow> Inl e | Inr b \<Rightarrow>
                        Inr (Iter [a, b])))))
                 | Percent p \<Rightarrow>
                     (case get_val p dmin dmax of Inl e \<Rightarrow> Inl e | Inr v \<Rightarrow> Inr (Single v))) of
             Inl e \<Rightarrow> Inl e
           | Inr val \<Rightarrow> threshold dataset val scalars invert use_continuous preference))"

subsection \<open>Outline, geometry, wireframe\<close>

definition outline :: "dataset \<Rightarrow> bool \<Rightarrow> wrapped" where
  "outline dataset generate_faces = wrap (vtkOutlineFilter dataset generate_faces)"

definition outline_corners :: "dataset \<Rightarrow> real \<Rightarrow> wrapped" where
  "outline_corners dataset factor = wrap (vtkOutlineCornerFilter dataset factor)"

definition extract_geometry :: "dataset \<Rightarrow> wrapped" where
  "extract_geometry dataset = get_output (vtkGeometryFilter dataset) None ''point''"

definition wireframe :: "dataset \<Rightarrow> wrapped" where
  "wireframe dataset = get_output (vtkExtractEdges dataset) None ''point''"

subsection \<open>Elevation\<close>

text \<open>The \<open>scalar_range\<close> argument: omitted, the name of an array, an iterable of
  floats, or anything else.\<close>

datatype scalar_range_arg = RangeNone | RangeName string | RangeSeq "real list" | RangeOther

definition elevation ::
  "dataset \<Rightarrow> real list option \<Rightarrow> real list option \<Rightarrow> scalar_range_arg \<Rightarrow> string \<Rightarrow> bool
     \<Rightarrow> error + wrapped" where
  "elevation dataset low_point high_point scalar_range preference set_active =
     (let low_point = (case low_point of
                         None \<Rightarrow> (center dataset)[2 := bounds_seq dataset ! 4]
                       | Some p \<Rightarrow> p);
          high_point = (case high_point of
                          None \<Rightarrow> (center dataset)[2 := bounds_seq dataset ! 5]
                        | Some p \<Rightarrow> p)
      in
      case (case scalar_range of
              RangeNone \<Rightarrow>
                (case seq_item low_point 2 of Inl e \<Rightarrow> Inl e | Inr lo \<Rightarrow>
                (case seq_item high_point 2 of Inl e \<Rightarrow> Inl e | Inr hi \<Rightarrow>
                   Inr [Finite lo, Finite hi]))
            | RangeName name \<Rightarrow>
                (case get_data_range dataset (Some name) (Some preference) of
                   Inl e \<Rightarrow> Inl e
                 | Inr (dmin, dmax) \<Rightarrow> Inr [dmin, dmax])
            | RangeSeq vs \<Rightarrow>
                if length vs = 2 then Inr (map Finite vs)
                else Inl (AssertionError
                  ''scalar_range must have a length of two defining the min and max'')
            | RangeOther \<Rightarrow> Inl (RuntimeError ''scalar_range argument ({}) not understood.'')) of
        Inl e \<Rightarrow> Inl e
      | Inr rng \<Rightarrow>
          Inr (get_output (vtkElevationFilter dataset rng low_point high_point)
                 (if \<not> set_active then None else Some ''Elevation'') ''point''))"

subsection \<open>Contour\<close>

text \<open>The \<open>isosurfaces\<close> argument: an integer count, an iterable of levels, or
  anything else.\<close>

datatype isosurfaces_arg = IsoCount int | IsoValues "real list" | IsoOther

definition contour ::
  "dataset \<Rightarrow> isosurfaces_arg \<Rightarrow> string option \<Rightarrow> bool \<Rightarrow> bool \<Rightarrow> bool \<Rightarrow> string
     \<Rightarrow> error + wrapped" where
  "contour dataset isosurfaces scalars compute_normals compute_gradients compute_scalars preference =
     (if n_scalars dataset < 1
      then Inl (AssertionError ''Input dataset for the contour filter must have scalar data.'')
      else
        case (case scalars of
                None \<Rightarrow>
                  Inr (Some (fst (active_scalar_info dataset)), snd (active_scalar_info dataset))
              | Some s \<Rightarrow>
                  (case get_scalar dataset (Some s) preference of
                     Inl e \<Rightarrow> Inl e
                   | Inr (_, field) \<Rightarrow> Inr (field, Some s))) of
          Inl e \<Rightarrow> Inl e
        | Inr (field, scalars) \<Rightarrow>
            if field \<noteq> Some 0
            then Inl (AssertionError
              ''Contour filter only works on Point data. Array ({}) is in the Cell data.'')
            else
              (case isosurfaces of
                 IsoCount k \<Rightarrow>
                   (case get_data_range dataset scalars None of
                      Inl e \<Rightarrow> Inl e
                    | Inr rng \<Rightarrow>
                        Inr (get_output
                          (vtkContourFilter dataset compute_normals compute_gradients
                             compute_scalars field scalars (GenerateValues k rng))
                          None ''point''))
               | IsoValues vs \<Rightarrow>
                   Inr (get_output
                     (vtkContourFilter dataset compute_normals compute_gradients
                        compute_scalars field scalars (SetValues vs))
                     None ''point'')
               | IsoOther \<Rightarrow> Inl (RuntimeError ''isosurfaces not understood.'')))"

subsection \<open>Texture map to plane\<close>

text \<open>The value returned: the wrapped output, or nothing (\<open>None\<close>) in the in-place
  mode. The in-place mode writes the texture coordinates into the point data of the
  input, which the dataset record does not hold; only what is returned is modelled.\<close>

definition texture_map_to_plane ::
  "dataset \<Rightarrow> real list \<Rightarrow> real list \<Rightarrow> real list \<Rightarrow> bool \<Rightarrow> string \<Rightarrow> wrapped option" where
  "texture_map_to_plane dataset origin point_u point_v inplace name =
     (let output = get_output (vtkTextureMapToPlane origin point_u point_v dataset) None ''point''
      in if \<not> inplace then Some output else None)"

subsection \<open>Example datasets\<close>

text \<open>A unit cube with one cell array \<open>temp\<close>, the active scalar, whose values span
  0 to 10 and include a NaN; and the same cube with \<open>temp\<close> as a point array.\<close>

definition unit_cube :: dataset where
  "unit_cube =
     \<lparr> bounds = (0, 1, 0, 1, 0, 1),
       n_scalars = 1,
       active_scalar_info = (1, Some ''temp''),
       get_scalar = (\<lambda>name preference.
         if name = Some ''temp'' then Inr (Some [Finite 0, NaN, Finite 5, Finite 10], Some 1)
         else Inr (None, None)),
       get_data_range = (\<lambda>name preference.
         if name = Some ''temp'' then Inr (Finite 0, Finite 10) else Inr (NaN, NaN)) \<rparr>"

definition point_cube :: dataset where
  "point_cube =
     \<lparr> bounds = (0, 1, 0, 1, 0, 1),
       n_scalars = 1,
       active_scalar_info = (0, Some ''temp''),
       get_scalar = (\<lambda>name preference.
         if name = Some ''temp'' then Inr (Some [Finite 0, NaN, Finite 5, Finite 10], Some 0)
         else Inr (None, None)),
       get_data_range = (\<lambda>name preference.
         if name = Some ''temp'' then Inr (Finite 0, Finite 10) else Inr (NaN, NaN)) \<rparr>"

text \<open>A dataset with no scalar arrays, and a flat one (no extent along x).\<close>

definition bare_cube :: dataset where
  "bare_cube =
     \<lparr> bounds = (0, 1, 0, 1, 0, 1),
       n_scalars = 0,
       active_scalar_info = (0, None),
       get_scalar = (\<lambda>name preference. Inr (None, None)),
       get_data_range = (\<lambda>name preference. Inr (NaN, NaN)) \<rparr>"



subsection \<open>Exact arithmetic, for the examples\<close>

text \<open>\<open>np.linspace(start, stop, num)\<close>: \<open>num\<close> evenly spaced samples over
  the closed interval, the single sample \<open>start\<close> when \<open>num\<close> is 1, and a
  ValueError for a negative \<open>num\<close>.\<close>

definition linspace :: "real \<Rightarrow> real \<Rightarrow> int \<Rightarrow> error + real list" where
  "linspace start stop num =
     (if num < 0 then Inl ValueError
      else if num = 1 then Inr [start]
      else Inr (map (\<lambda>i. start + real i * ((stop - start) / real (nat num - 1))) [0..<nat num]))"

text \<open>The arithmetic without rounding and without overflow: on finite numbers it is
  the arithmetic of the reals, and \<open>linspace\<close> above; anything else gives NaN.\<close>

definition exact_op :: "(real \<Rightarrow> real \<Rightarrow> real) \<Rightarrow> double \<Rightarrow> double \<Rightarrow> double" where
  "exact_op f u v = (case (u, v) of (Fin a, Fin b) \<Rightarrow> Fin (f a b) | _ \<Rightarrow> NotANumber)"

definition exact_linspace :: "double \<Rightarrow> double \<Rightarrow> int \<Rightarrow> error + double list" where
  "exact_linspace start stop num =
     (case (start, stop) of
        (Fin a, Fin b) \<Rightarrow>
          (case linspace a b num of Inl e \<Rightarrow> Inl e | Inr xs \<Rightarrow> Inr (map Fin xs))
      | _ \<Rightarrow> if num < 0 then Inl ValueError else Inr (replicate (nat num) NotANumber))"

definition exact_arith :: float_arith where
  "exact_arith =
     \<lparr> fl_add = exact_op (+),
       fl_sub = exact_op (-),
       fl_mul = exact_op (*),
       fl_0_01 = Fin (1 / 100),
       np_linspace = exact_linspace \<rparr>"

section \<open>Properties\<close>

subsection \<open>Helper lemmas\<close>

lemma lower_char_idem: "lower_char (lower_char c) = lower_char c"
  by (simp add: lower_char_def)

lemma lower_idem: "lower (lower s) = lower s"
  by (simp add: lower_def lower_char_idem)

lemma lower_axis_names:
  "lower ''x'' = ''x''" "lower ''y'' = ''y''" "lower ''z'' = ''z''"
  "lower ''-x'' = ''-x''" "lower ''-y'' = ''-y''" "lower ''-z'' = ''-z''"
  by (simp_all add: lower_def lower_char_def)

lemma NORMALS_entries:
  "NORMALS ''x'' = Some [1, 0, 0]" "NORMALS ''y'' = Some [0, 1, 0]" "NORMALS ''z'' = Some [0, 0, 1]"
  "NORMALS ''-x'' = Some [-1, 0, 0]" "NORMALS ''-y'' = Some [0, -1, 0]"
  "NORMALS ''-z'' = Some [0, 0, -1]"
  by (simp_all add: NORMALS_def)

lemma generate_plane_vec3:
  "generate_plane (PySeq [a, b, c]) [p, q, r] = Inr (Plane (a, b, c) (p, q, r))"
  by (simp add: generate_plane_def normal_item_def seq_item_def)

lemma seq_item_error: "seq_item xs i = Inl e \<Longrightarrow> e = IndexError"
  by (auto simp: seq_item_def split: if_splits)

lemma normal_item_error: "normal_item n k = Inl e \<Longrightarrow> e = IndexError \<or> e = TypeError"
  by (auto simp: normal_item_def split: pyarg.splits sum.splits dest: seq_item_error)

lemma sum_bind_Inl:
  "(case x of Inl e \<Rightarrow> Inl e | Inr v \<Rightarrow> f v) = Inl err \<Longrightarrow>
     x = Inl err \<or> (\<exists>v. x = Inr v \<and> f v = Inl err)"
  by (cases x) auto

lemma generate_plane_error:
  assumes "generate_plane n orig = Inl e"
  shows "e = IndexError \<or> e = TypeError"
proof -
  from assms have "(\<exists>k. normal_item n k = Inl e) \<or> (\<exists>k. seq_item orig k = Inl e)"
    unfolding generate_plane_def
    by (auto dest!: sum_bind_Inl)
  then show ?thesis
    using seq_item_error normal_item_error by blast
qed

lemma get_output_plain: "get_output alg None fld = Wrapped alg (input_meta alg)"
  by (simp add: get_output_def wrap_def copy_meta_from_def)

lemma center_inside:
  "ordered_bounds dataset \<Longrightarrow> is_inside_bounds (center dataset) (bounds_seq dataset)"
  by (cases "bounds dataset") (simp add: ordered_bounds_def center_def bounds_seq_def)


subsection \<open>Symbolic normals\<close>

text \<open>
  C6. Each of the six axis-aligned names resolves to the unit vector of the documented
  table: the table holds it, \<open>clip\<close> builds its plane with it, and so does
  \<open>slice\<close> when the origin passes the bounds check.
\<close>

theorem axis_normals_table:
  assumes "(name, v) \<in> {(''x'', (1, 0, 0)), (''y'', (0, 1, 0)), (''z'', (0, 0, 1)),
                       (''-x'', (-1, 0, 0)), (''-y'', (0, -1, 0)), (''-z'', (0, 0, -1))}"
  shows "NORMALS name = Some [fst v, fst (snd v), snd (snd v)]
       \<and> clip dataset (PyStr name) (Some [p, q, r]) invert =
           Inr (get_output (vtkClipDataSet dataset (Plane v (p, q, r)) invert) None ''point'')
       \<and> (is_inside_bounds [p, q, r] (bounds_seq dataset) \<longrightarrow>
           slice dataset (PyStr name) (Some [p, q, r]) generate_triangles =
             Inr (get_output (vtkCutter dataset (Plane v (p, q, r)) generate_triangles)
                    None ''point''))"
proof -
  from assms consider
      "name = ''x''" "v = (1, 0, 0)" | "name = ''y''" "v = (0, 1, 0)"
    | "name = ''z''" "v = (0, 0, 1)" | "name = ''-x''" "v = (-1, 0, 0)"
    | "name = ''-y''" "v = (0, -1, 0)" | "name = ''-z''" "v = (0, 0, -1)"
    by auto
  then show ?thesis
    by cases
      (simp_all add: clip_def slice_def lower_axis_names NORMALS_entries generate_plane_vec3)
qed

theorem axis_normals_table_witness:
  "NORMALS ''-y'' = Some [0, -1, 0]
   \<and> clip unit_cube (PyStr ''-y'') (Some [1/2, 1/2, 1/2]) True =
       Inr (Wrapped (vtkClipDataSet unit_cube (Plane (0, -1, 0) (1/2, 1/2, 1/2)) True)
              (Some (1, Some ''temp'')))
   \<and> slice unit_cube (PyStr ''-y'') (Some [1/2, 1/2, 1/2]) False =
       Inr (Wrapped (vtkCutter unit_cube (Plane (0, -1, 0) (1/2, 1/2, 1/2)) False)
              (Some (1, Some ''temp'')))"
proof -
  have inside: "is_inside_bounds [1/2, 1/2, 1/2] (bounds_seq unit_cube)"
    by (simp add: bounds_seq_def unit_cube_def)
  have info: "active_scalar_info unit_cube = (1, Some ''temp'')"
    by (simp add: unit_cube_def)
  show ?thesis
    using axis_normals_table [of "''-y''" "(0, -1, 0)" unit_cube "1/2" "1/2" "1/2" True False]
      inside
    by (simp add: get_output_plain info)
qed

text \<open>
  C10. A symbolic normal is lowercased before the lookup, so every casing of a name gives
  \<open>clip\<close> and \<open>slice\<close> the result of the lowercase name.
\<close>

theorem normal_names_case_insensitive:
  assumes "lower s = name"
  shows "clip dataset (PyStr s) origin invert = clip dataset (PyStr name) origin invert
       \<and> slice dataset (PyStr s) origin generate_triangles =
           slice dataset (PyStr name) origin generate_triangles"
  using assms by (auto simp: clip_def slice_def lower_idem cong: option.case_cong)

theorem normal_names_case_insensitive_witness:
  "lower ''-Y'' = ''-y''
   \<and> clip unit_cube (PyStr ''-Y'') None True = clip unit_cube (PyStr ''-y'') None True
   \<and> slice unit_cube (PyStr ''-Y'') None False = slice unit_cube (PyStr ''-y'') None False"
proof -
  have h: "lower ''-Y'' = ''-y''" by (simp add: lower_def lower_char_def)
  show ?thesis
    using h normal_names_case_insensitive [OF h, of unit_cube None True False] by blast
qed

subsection \<open>Clip and the bounds check of slice\<close>

lemma NORMALS_vec3: "NORMALS k = Some v \<Longrightarrow> \<exists>a b c. v = [a, b, c]"
  by (auto simp: NORMALS_def split: if_splits)

lemma center_vec3: "\<exists>x y z. center dataset = [x, y, z]"
proof (cases "bounds dataset")
  case (fields x0 x1 y0 y1 z0 z1)
  then have "center dataset = [(x0 + x1) / 2, (y0 + y1) / 2, (z0 + z1) / 2]"
    by (simp add: center_def)
  then show ?thesis by blast
qed

lemma clip_error_cases:
  assumes "clip dataset normal origin invert = Inl e"
  shows "(\<exists>s. normal = PyStr s \<and> NORMALS (lower s) = None \<and> e = KeyError (lower s))
         \<or> (\<exists>n orig. generate_plane n orig = Inl e)"
  using assms unfolding clip_def
  by (auto split: pyarg.splits option.splits sum.splits simp: Let_def)

lemma clip_unknown_name:
  "NORMALS (lower s) = None \<Longrightarrow> clip dataset (PyStr s) origin invert = Inl (KeyError (lower s))"
  by (simp add: clip_def)

lemma clip_known_name:
  assumes "NORMALS (lower s) = Some v" and "origin = None \<or> (\<exists>p q r. origin = Some [p, q, r])"
  shows "\<exists>out. clip dataset (PyStr s) origin invert = Inr out"
proof -
  obtain a b c where v: "v = [a, b, c]" using NORMALS_vec3 [OF assms(1)] by blast
  obtain x y z where o: "(case origin of None \<Rightarrow> center dataset | Some p \<Rightarrow> p) = [x, y, z]"
    using assms(2) center_vec3 [of dataset] by (auto split: option.splits)
  show ?thesis
    by (simp add: clip_def assms(1) v o generate_plane_vec3)
qed

lemma clip_vector:
  assumes "origin = None \<or> (\<exists>p q r. origin = Some [p, q, r])"
  shows "\<exists>out. clip dataset (PySeq [a, b, c]) origin invert = Inr out"
proof -
  obtain x y z where o: "(case origin of None \<Rightarrow> center dataset | Some p \<Rightarrow> p) = [x, y, z]"
    using assms center_vec3 [of dataset] by (auto split: option.splits)
  show ?thesis
    by (simp add: clip_def o generate_plane_vec3)
qed

text \<open>
  C8. \<open>clip\<close> performs no bounds check: for no input at all does it raise an
  AssertionError, the error of the bounds check of \<open>slice\<close>. For a normal that is a
  name or a 3-vector and an origin that is omitted or a 3-vector, whatever its position,
  its only error is the KeyError of an unknown name, and it returns otherwise.
\<close>

theorem clip_no_bounds_check:
  "(\<forall>msg. clip dataset normal origin invert \<noteq> Inl (AssertionError msg))
   \<and> (((\<exists>s. normal = PyStr s) \<or> (\<exists>a b c. normal = PySeq [a, b, c]))
        \<and> (origin = None \<or> (\<exists>p q r. origin = Some [p, q, r])) \<longrightarrow>
      (\<forall>e. clip dataset normal origin invert = Inl e \<longrightarrow>
         (\<exists>s. normal = PyStr s \<and> NORMALS (lower s) = None \<and> e = KeyError (lower s)))
      \<and> ((\<forall>s. normal = PyStr s \<longrightarrow> NORMALS (lower s) \<noteq> None) \<longrightarrow>
         (\<exists>out. clip dataset normal origin invert = Inr out)))"
proof (intro conjI allI impI)
  fix msg
  show "clip dataset normal origin invert \<noteq> Inl (AssertionError msg)"
  proof
    assume "clip dataset normal origin invert = Inl (AssertionError msg)"
    from clip_error_cases [OF this] show False
      by (auto dest: generate_plane_error)
  qed
next
  fix e
  assume wf: "((\<exists>s. normal = PyStr s) \<or> (\<exists>a b c. normal = PySeq [a, b, c]))
        \<and> (origin = None \<or> (\<exists>p q r. origin = Some [p, q, r]))"
    and err: "clip dataset normal origin invert = Inl e"
  from wf have org: "origin = None \<or> (\<exists>p q r. origin = Some [p, q, r])" by blast
  from wf consider s where "normal = PyStr s" | a b c where "normal = PySeq [a, b, c]" by blast
  then show "\<exists>s. normal = PyStr s \<and> NORMALS (lower s) = None \<and> e = KeyError (lower s)"
  proof cases
    case 1
    show ?thesis
    proof (cases "NORMALS (lower s)")
      case None
      with 1 err show ?thesis by (simp add: clip_unknown_name)
    next
      case (Some v)
      from clip_known_name [OF Some org, of dataset invert] 1 err show ?thesis by auto
    qed
  next
    case 2
    from clip_vector [OF org, of dataset a b c invert] 2 err show ?thesis by auto
  qed
next
  assume wf: "((\<exists>s. normal = PyStr s) \<or> (\<exists>a b c. normal = PySeq [a, b, c]))
        \<and> (origin = None \<or> (\<exists>p q r. origin = Some [p, q, r]))"
    and known: "\<forall>s. normal = PyStr s \<longrightarrow> NORMALS (lower s) \<noteq> None"
  from wf have org: "origin = None \<or> (\<exists>p q r. origin = Some [p, q, r])" by blast
  from wf consider s where "normal = PyStr s" | a b c where "normal = PySeq [a, b, c]" by blast
  then show "\<exists>out. clip dataset normal origin invert = Inr out"
  proof cases
    case 1
    with known obtain v where "NORMALS (lower s) = Some v" by auto
    from clip_known_name [OF this org, of dataset invert] 1 show ?thesis by simp
  next
    case 2
    from clip_vector [OF org, of dataset a b c invert] 2 show ?thesis by simp
  qed
qed

theorem clip_no_bounds_check_witness:
  "\<not> is_inside_bounds [5, 5, 5] (bounds_seq unit_cube)
   \<and> slice unit_cube (PyStr ''x'') (Some [5, 5, 5]) False =
       Inl (AssertionError ''Slice is outside data bounds.'')
   \<and> (\<exists>out. clip unit_cube (PyStr ''x'') (Some [5, 5, 5]) True = Inr out)"
proof -
  have outside: "\<not> is_inside_bounds [5, 5, 5] (bounds_seq unit_cube)"
    by (simp add: bounds_seq_def unit_cube_def)
  have sl: "slice unit_cube (PyStr ''x'') (Some [5, 5, 5]) False =
       Inl (AssertionError ''Slice is outside data bounds.'')"
    using outside by (simp add: slice_def lower_axis_names NORMALS_entries)
  have known: "\<forall>s. PyStr ''x'' = PyStr s \<longrightarrow> NORMALS (lower s) \<noteq> None"
    by (simp add: lower_axis_names NORMALS_entries)
  have "\<exists>out. clip unit_cube (PyStr ''x'') (Some [5, 5, 5]) True = Inr out"
    using clip_no_bounds_check [of unit_cube "PyStr ''x''" "Some [5, 5, 5]" True] known
    by blast
  with outside sl show ?thesis by blast
qed

lemma slice_error_cases:
  assumes "slice dataset normal origin gt = Inl e"
  shows "(\<exists>s. normal = PyStr s \<and> NORMALS (lower s) = None \<and> e = KeyError (lower s))
         \<or> (e = AssertionError ''Slice is outside data bounds.''
              \<and> \<not> is_inside_bounds (case origin of None \<Rightarrow> center dataset | Some p \<Rightarrow> p)
                    (bounds_seq dataset))
         \<or> (\<exists>n orig. generate_plane n orig = Inl e)"
  using assms unfolding slice_def
  by (auto split: pyarg.splits option.splits sum.splits if_splits simp: Let_def)

lemma slice_outside:
  assumes "\<forall>s. normal = PyStr s \<longrightarrow> NORMALS (lower s) \<noteq> None"
    and "\<not> is_inside_bounds p (bounds_seq dataset)"
  shows "slice dataset normal (Some p) gt = Inl (AssertionError ''Slice is outside data bounds.'')"
  using assms unfolding slice_def
  by (auto split: pyarg.splits option.splits)

lemma slice_inside_vec3:
  assumes "normal = PySeq [a, b, c] \<or> (\<exists>s. normal = PyStr s \<and> NORMALS (lower s) = Some [a, b, c])"
    and "(case origin of None \<Rightarrow> center dataset | Some p \<Rightarrow> p) = [x, y, z]"
    and "is_inside_bounds [x, y, z] (bounds_seq dataset)"
  shows "slice dataset normal origin gt =
           Inr (get_output (vtkCutter dataset (Plane (a, b, c) (x, y, z)) gt) None ''point'')"
  using assms unfolding slice_def
  by (auto simp: generate_plane_vec3)

text \<open>
  C2. With a normal that resolves, \<open>slice\<close> at an origin outside the bounding box
  raises the AssertionError of the bounds check. On a dataset with ordered bounds, slicing
  with the origin omitted or equal to the center never raises it, and returns a slice
  when the normal is a known name or a 3-vector.
\<close>

theorem slice_bounds_check:
  "((\<forall>s. normal = PyStr s \<longrightarrow> NORMALS (lower s) \<noteq> None)
      \<and> \<not> is_inside_bounds p (bounds_seq dataset) \<longrightarrow>
      slice dataset normal (Some p) generate_triangles =
        Inl (AssertionError ''Slice is outside data bounds.''))
   \<and> (ordered_bounds dataset \<longrightarrow>
        (\<forall>msg. slice dataset normal None generate_triangles \<noteq> Inl (AssertionError msg)
             \<and> slice dataset normal (Some (center dataset)) generate_triangles
                 \<noteq> Inl (AssertionError msg)))
   \<and> (ordered_bounds dataset
        \<and> ((\<exists>s. normal = PyStr s \<and> NORMALS (lower s) \<noteq> None)
            \<or> (\<exists>a b c. normal = PySeq [a, b, c])) \<longrightarrow>
        (\<exists>out. slice dataset normal None generate_triangles = Inr out
            \<and> slice dataset normal (Some (center dataset)) generate_triangles = Inr out))"
proof (intro conjI allI impI)
  assume "(\<forall>s. normal = PyStr s \<longrightarrow> NORMALS (lower s) \<noteq> None)
      \<and> \<not> is_inside_bounds p (bounds_seq dataset)"
  then show "slice dataset normal (Some p) generate_triangles =
        Inl (AssertionError ''Slice is outside data bounds.'')"
    using slice_outside by blast
next
  fix msg
  assume ob: "ordered_bounds dataset"
  show "slice dataset normal None generate_triangles \<noteq> Inl (AssertionError msg)"
  proof
    assume "slice dataset normal None generate_triangles = Inl (AssertionError msg)"
    from slice_error_cases [OF this] center_inside [OF ob] show False
      by (auto dest: generate_plane_error)
  qed
  show "slice dataset normal (Some (center dataset)) generate_triangles \<noteq> Inl (AssertionError msg)"
  proof
    assume "slice dataset normal (Some (center dataset)) generate_triangles
              = Inl (AssertionError msg)"
    from slice_error_cases [OF this] center_inside [OF ob] show False
      by (auto dest: generate_plane_error)
  qed
next
  assume h: "ordered_bounds dataset
        \<and> ((\<exists>s. normal = PyStr s \<and> NORMALS (lower s) \<noteq> None)
            \<or> (\<exists>a b c. normal = PySeq [a, b, c]))"
  obtain x y z where c: "center dataset = [x, y, z]" using center_vec3 by blast
  from h center_inside have ins: "is_inside_bounds [x, y, z] (bounds_seq dataset)"
    by (metis c)
  from h obtain a b c where
    n: "normal = PySeq [a, b, c] \<or> (\<exists>s. normal = PyStr s \<and> NORMALS (lower s) = Some [a, b, c])"
    using NORMALS_vec3 by fastforce
  have "slice dataset normal None generate_triangles =
          Inr (get_output (vtkCutter dataset (Plane (a, b, c) (x, y, z)) generate_triangles)
                 None ''point'')"
    by (rule slice_inside_vec3 [OF n _ ins]) (simp add: c)
  moreover have "slice dataset normal (Some (center dataset)) generate_triangles =
          Inr (get_output (vtkCutter dataset (Plane (a, b, c) (x, y, z)) generate_triangles)
                 None ''point'')"
    by (rule slice_inside_vec3 [OF n _ ins]) (simp add: c)
  ultimately show "\<exists>out. slice dataset normal None generate_triangles = Inr out
            \<and> slice dataset normal (Some (center dataset)) generate_triangles = Inr out"
    by blast
qed

theorem slice_bounds_check_witness:
  "slice unit_cube (PyStr ''z'') (Some [1/2, 1/2, 2]) False =
     Inl (AssertionError ''Slice is outside data bounds.'')
   \<and> ordered_bounds unit_cube
   \<and> center unit_cube = [1/2, 1/2, 1/2]
   \<and> (\<exists>out. slice unit_cube (PyStr ''z'') None False = Inr out
         \<and> slice unit_cube (PyStr ''z'') (Some (center unit_cube)) False = Inr out)"
proof -
  have known: "\<forall>s. PyStr ''z'' = PyStr s \<longrightarrow> NORMALS (lower s) \<noteq> None"
    by (simp add: lower_axis_names NORMALS_entries)
  have known': "\<exists>s. PyStr ''z'' = PyStr s \<and> NORMALS (lower s) \<noteq> None"
    by (simp add: lower_axis_names NORMALS_entries)
  have outside: "\<not> is_inside_bounds [1/2, 1/2, 2] (bounds_seq unit_cube)"
    by (simp add: bounds_seq_def unit_cube_def)
  have ob: "ordered_bounds unit_cube"
    by (simp add: ordered_bounds_def unit_cube_def)
  have c: "center unit_cube = [1/2, 1/2, 1/2]"
    by (simp add: center_def unit_cube_def)
  show ?thesis
    using slice_bounds_check [of "PyStr ''z''" "[1/2, 1/2, 2]" unit_cube False]
      known known' outside ob c
    by blast
qed

lemma unit_cube_fields:
  "bounds unit_cube = (0, 1, 0, 1, 0, 1)"
  "n_scalars unit_cube = 1"
  "active_scalar_info unit_cube = (1, Some ''temp'')"
  "get_scalar unit_cube name preference =
     (if name = Some ''temp'' then Inr (Some [Finite 0, NaN, Finite 5, Finite 10], Some 1)
      else Inr (None, None))"
  "get_data_range unit_cube name pref =
     (if name = Some ''temp'' then Inr (Finite 0, Finite 10) else Inr (NaN, NaN))"
  by (simp_all add: unit_cube_def)

subsection \<open>Contour\<close>

lemma bare_cube_fields:
  "bounds bare_cube = (0, 1, 0, 1, 0, 1)"
  "n_scalars bare_cube = 0"
  "active_scalar_info bare_cube = (0, None)"
  "get_scalar bare_cube name preference = Inr (None, None)"
  "get_data_range bare_cube name pref = Inr (NaN, NaN)"
  by (simp_all add: bare_cube_def)

text \<open>
  C7. \<open>contour\<close> raises an AssertionError when the dataset has no scalar array, and
  raises one when the field of the target array is not point data (field code 0), be the
  array the active scalar or named explicitly; a cell array has field code 1.
\<close>

theorem contour_missing_data:
  "(n_scalars dataset < 1 \<longrightarrow>
      contour dataset isosurfaces scalars compute_normals compute_gradients compute_scalars
        preference =
        Inl (AssertionError ''Input dataset for the contour filter must have scalar data.''))
   \<and> (1 \<le> n_scalars dataset \<and> scalars = None \<and> fst (active_scalar_info dataset) \<noteq> 0 \<longrightarrow>
      contour dataset isosurfaces scalars compute_normals compute_gradients compute_scalars
        preference =
        Inl (AssertionError
          ''Contour filter only works on Point data. Array ({}) is in the Cell data.''))
   \<and> (1 \<le> n_scalars dataset \<and> scalars = Some name
        \<and> get_scalar dataset (Some name) preference = Inr (arr, field) \<and> field \<noteq> Some 0 \<longrightarrow>
      contour dataset isosurfaces scalars compute_normals compute_gradients compute_scalars
        preference =
        Inl (AssertionError
          ''Contour filter only works on Point data. Array ({}) is in the Cell data.''))"
  by (simp add: contour_def)

theorem contour_missing_data_witness:
  "contour bare_cube (IsoCount 10) None False False True ''point'' =
     Inl (AssertionError ''Input dataset for the contour filter must have scalar data.'')
   \<and> fst (active_scalar_info unit_cube) = 1
   \<and> contour unit_cube (IsoCount 10) None False False True ''point'' =
       Inl (AssertionError
         ''Contour filter only works on Point data. Array ({}) is in the Cell data.'')
   \<and> get_scalar unit_cube (Some ''temp'') ''point'' =
       Inr (Some [Finite 0, NaN, Finite 5, Finite 10], Some 1)
   \<and> contour unit_cube (IsoCount 10) (Some ''temp'') False False True ''point'' =
       Inl (AssertionError
         ''Contour filter only works on Point data. Array ({}) is in the Cell data.'')"
proof -
  have a: "contour bare_cube (IsoCount 10) None False False True ''point'' =
     Inl (AssertionError ''Input dataset for the contour filter must have scalar data.'')"
    using contour_missing_data [of bare_cube "IsoCount 10" None False False True "''point''"]
    by (simp add: bare_cube_fields)
  have b: "contour unit_cube (IsoCount 10) None False False True ''point'' =
       Inl (AssertionError
         ''Contour filter only works on Point data. Array ({}) is in the Cell data.'')"
    using contour_missing_data [of unit_cube "IsoCount 10" None False False True "''point''"]
    by (simp add: unit_cube_fields)
  have c: "contour unit_cube (IsoCount 10) (Some ''temp'') False False True ''point'' =
       Inl (AssertionError
         ''Contour filter only works on Point data. Array ({}) is in the Cell data.'')"
    using contour_missing_data [of unit_cube "IsoCount 10" "Some ''temp''" False False True
        "''point''" "''temp''" "Some [Finite 0, NaN, Finite 5, Finite 10]" "Some 1"]
    by (simp add: unit_cube_fields)
  from a b c show ?thesis by (simp add: unit_cube_fields)
qed

subsection \<open>Metadata of the returned dataset\<close>

lemma get_output_meta: "meta (get_output alg None fld) = input_meta alg"
  by (simp add: get_output_plain)

lemma threshold_plain:
  assumes "\<not> ((case val of Iter _ \<Rightarrow> True | _ \<Rightarrow> False) \<and> invert)"
    and "threshold dataset val scalars invert use_continuous preference = Inr out"
  shows "\<exists>field name rule. out = get_output (vtkThreshold dataset field name use_continuous rule) None ''point''"
  using assms
  by (auto simp: threshold.simps [of dataset val scalars invert use_continuous preference]
        Let_def split: sum.splits option.splits prod.splits value_arg.splits if_splits)

lemma threshold_inverted:
  assumes "threshold dataset (Iter vs) scalars True use_continuous preference = Inr out"
  shows "\<exists>t1 t2 v sc. threshold dataset (Iter v) sc False use_continuous preference = Inr t1
            \<and> out = get_output (vtkAppendFilter [t1, t2]) None ''point''"
  using assms
  by (auto simp: threshold.simps [of dataset "Iter vs" scalars True use_continuous preference]
        Let_def split: sum.splits option.splits prod.splits if_splits)

lemma threshold_meta:
  assumes "threshold dataset val scalars invert use_continuous preference = Inr out"
  shows "meta out = Some (active_scalar_info dataset)"
proof (cases "(case val of Iter _ \<Rightarrow> True | _ \<Rightarrow> False) \<and> invert")
  case False
  from threshold_plain [OF False assms] show ?thesis
    by (auto simp: get_output_plain)
next
  case True
  then obtain vs where "val = Iter vs" "invert" by (cases val) auto
  with assms have "threshold dataset (Iter vs) scalars True use_continuous preference = Inr out"
    by simp
  from threshold_inverted [OF this] obtain t1 t2 v sc where
    t1: "threshold dataset (Iter v) sc False use_continuous preference = Inr t1"
    and out: "out = get_output (vtkAppendFilter [t1, t2]) None ''point''"
    by blast
  have "\<not> ((case Iter v of Iter _ \<Rightarrow> True | _ \<Rightarrow> False) \<and> False)" by simp
  from threshold_plain [OF this t1] have "meta t1 = Some (active_scalar_info dataset)"
    by (auto simp: get_output_plain)
  then show ?thesis by (simp add: out get_output_plain)
qed

lemma clip_meta:
  "clip dataset normal origin invert = Inr out \<Longrightarrow> meta out = Some (active_scalar_info dataset)"
  unfolding clip_def
  by (auto simp: get_output_plain Let_def split: sum.splits pyarg.splits option.splits)

lemma slice_meta:
  "slice dataset normal origin gt = Inr out \<Longrightarrow> meta out = Some (active_scalar_info dataset)"
  unfolding slice_def
  by (auto simp: get_output_plain Let_def split: sum.splits pyarg.splits option.splits if_splits)

lemma contour_meta:
  "contour dataset isosurfaces scalars cn cg cs preference = Inr out \<Longrightarrow>
     meta out = Some (active_scalar_info dataset)"
  unfolding contour_def
  by (auto simp: get_output_plain split: sum.splits option.splits if_splits prod.splits
        isosurfaces_arg.splits)

lemma elevation_meta:
  "elevation dataset low_point high_point scalar_range preference set_active = Inr out \<Longrightarrow>
     meta out = (if set_active then Some (0, Some ''Elevation'') else Some (active_scalar_info dataset))"
  unfolding elevation_def
  by (auto simp: get_output_def wrap_def copy_meta_from_def set_active_scalar_def Let_def
        split: sum.splits)

text \<open>
  C9, as amended. The filters that return through \<open>_get_output\<close> (clip, slice,
  threshold, extract_geometry, wireframe, contour, elevation without set_active, and
  texture_map_to_plane when not in place) return a dataset that carries the active scalar
  designation of the input. \<open>outline\<close> and \<open>outline_corners\<close> wrap the kernel
  output directly, and nothing is copied onto it.
\<close>

theorem filters_copy_meta:
  "(\<forall>out. clip dataset normal origin invert = Inr out \<longrightarrow>
        meta out = Some (active_scalar_info dataset))
   \<and> (\<forall>out. slice dataset normal origin generate_triangles = Inr out \<longrightarrow>
        meta out = Some (active_scalar_info dataset))
   \<and> (\<forall>out. threshold dataset val scalars invert use_continuous preference = Inr out \<longrightarrow>
        meta out = Some (active_scalar_info dataset))
   \<and> meta (extract_geometry dataset) = Some (active_scalar_info dataset)
   \<and> meta (wireframe dataset) = Some (active_scalar_info dataset)
   \<and> (\<forall>out. contour dataset isosurfaces scalars compute_normals compute_gradients
              compute_scalars preference = Inr out \<longrightarrow>
        meta out = Some (active_scalar_info dataset))
   \<and> (\<forall>out. elevation dataset low_point high_point scalar_range preference False = Inr out \<longrightarrow>
        meta out = Some (active_scalar_info dataset))
   \<and> (\<forall>out. texture_map_to_plane dataset point_o point_u point_v False name = Some out \<longrightarrow>
        meta out = Some (active_scalar_info dataset))
   \<and> meta (outline dataset generate_faces) = None
   \<and> meta (outline_corners dataset factor) = None"
  by (auto simp: extract_geometry_def wireframe_def get_output_plain texture_map_to_plane_def
        outline_def outline_corners_def wrap_def
      dest: clip_meta slice_meta threshold_meta contour_meta elevation_meta)

theorem filters_copy_meta_witness:
  "(\<exists>out. clip unit_cube (PyStr ''x'') None True = Inr out
        \<and> meta out = Some (1, Some ''temp''))
   \<and> meta (extract_geometry unit_cube) = Some (1, Some ''temp'')
   \<and> meta (wireframe unit_cube) = Some (1, Some ''temp'')
   \<and> meta (outline unit_cube False) = None
   \<and> meta (outline_corners unit_cube (1 / 5)) = None"
proof -
  have "\<exists>out. clip unit_cube (PyStr ''x'') None True = Inr out"
    by (rule clip_known_name [of "''x''" "[1, 0, 0]"]) (simp_all add: lower_axis_names NORMALS_entries)
  then show ?thesis
    using filters_copy_meta [of unit_cube "PyStr ''x''" None True]
    by (auto simp: unit_cube_fields)
qed

text \<open>The claim as stated fails for the two outline filters.\<close>

theorem outline_drops_meta_counterexample:
  "meta (outline unit_cube False) \<noteq> Some (active_scalar_info unit_cube)
   \<and> meta (outline_corners unit_cube (1 / 5)) \<noteq> Some (active_scalar_info unit_cube)"
  by (simp add: outline_def outline_corners_def wrap_def)

subsection \<open>Inverted range threshold\<close>

lemma resolve_scalars_idem:
  "(case (case scalars of None \<Rightarrow> snd (active_scalar_info dataset) | Some s \<Rightarrow> Some s) of
      None \<Rightarrow> snd (active_scalar_info dataset) | Some s \<Rightarrow> Some s)
   = (case scalars of None \<Rightarrow> snd (active_scalar_info dataset) | Some s \<Rightarrow> Some s)"
  by (auto split: option.splits)

lemma threshold_between:
  assumes "get_scalar dataset
             (case scalars of None \<Rightarrow> snd (active_scalar_info dataset) | Some s \<Rightarrow> Some s)
             preference = Inr (Some arr, field)"
  shows "threshold dataset (Iter [a, b]) scalars False use_continuous preference =
           Inr (get_output
                  (vtkThreshold dataset field
                     (case scalars of None \<Rightarrow> snd (active_scalar_info dataset) | Some s \<Rightarrow> Some s)
                     use_continuous (ThresholdBetween a b))
                  None ''point'')"
  using assms
  by (simp add: threshold.simps [of dataset "Iter [a, b]" scalars False use_continuous preference]
       Let_def)

lemma threshold_no_array:
  assumes "get_scalar dataset
             (case scalars of None \<Rightarrow> snd (active_scalar_info dataset) | Some s \<Rightarrow> Some s)
             preference = Inr (None, field)"
  shows "threshold dataset val scalars invert use_continuous preference =
           Inl (AssertionError ''No arrays present to threshold.'')"
  using assms
  by (simp add: threshold.simps [of dataset val scalars invert use_continuous preference] Let_def)

lemma seq_item_pair: "seq_item [a, b] 0 = Inr a" "seq_item [a, b] 1 = Inr b"
  by (simp_all add: seq_item_def)

text \<open>
  C1. With the scalar array resolved and its NaN-ignoring minimum and maximum at hand,
  the inverted threshold over the range \<open>[v0, v1]\<close> is the append (merge) of two
  thresholds that are not inverted, one between the minimum and \<open>v0\<close> and one between
  \<open>v1\<close> and the maximum; both run on the same array and both succeed. When no array
  resolves, the inverted threshold and the plain ones fail alike.
\<close>

theorem threshold_inverted_range:
  "(get_scalar dataset
      (case scalars of None \<Rightarrow> snd (active_scalar_info dataset) | Some s \<Rightarrow> Some s)
      preference = Inr (Some arr, field)
    \<and> nanmin arr = Inr amin \<and> nanmax arr = Inr amax \<longrightarrow>
    (\<exists>t1 t2.
       threshold dataset (Iter [amin, v0]) scalars False use_continuous preference = Inr t1
     \<and> t1 = get_output
              (vtkThreshold dataset field
                 (case scalars of None \<Rightarrow> snd (active_scalar_info dataset) | Some s \<Rightarrow> Some s)
                 use_continuous (ThresholdBetween amin v0))
              None ''point''
     \<and> threshold dataset (Iter [v1, amax]) scalars False use_continuous preference = Inr t2
     \<and> t2 = get_output
              (vtkThreshold dataset field
                 (case scalars of None \<Rightarrow> snd (active_scalar_info dataset) | Some s \<Rightarrow> Some s)
                 use_continuous (ThresholdBetween v1 amax))
              None ''point''
     \<and> threshold dataset (Iter [v0, v1]) scalars True use_continuous preference =
         Inr (get_output (vtkAppendFilter [t1, t2]) None ''point'')))
   \<and> (get_scalar dataset
        (case scalars of None \<Rightarrow> snd (active_scalar_info dataset) | Some s \<Rightarrow> Some s)
        preference = Inr (None, field) \<longrightarrow>
      threshold dataset (Iter [v0, v1]) scalars True use_continuous preference =
        Inl (AssertionError ''No arrays present to threshold.'')
      \<and> (\<forall>a b. threshold dataset (Iter [a, b]) scalars False use_continuous preference =
        Inl (AssertionError ''No arrays present to threshold.'')))"
proof (intro conjI impI)
  let ?r = "case scalars of None \<Rightarrow> snd (active_scalar_info dataset) | Some s \<Rightarrow> Some s"
  assume h: "get_scalar dataset ?r preference = Inr (Some arr, field)
    \<and> nanmin arr = Inr amin \<and> nanmax arr = Inr amax"
  then have gs: "get_scalar dataset ?r preference = Inr (Some arr, field)" by blast
  have gs': "get_scalar dataset
      (case ?r of None \<Rightarrow> snd (active_scalar_info dataset) | Some s \<Rightarrow> Some s) preference
      = Inr (Some arr, field)"
    using gs by (simp only: resolve_scalars_idem)
  have t1: "threshold dataset (Iter [amin, v0]) scalars False use_continuous preference =
      Inr (get_output (vtkThreshold dataset field ?r use_continuous (ThresholdBetween amin v0))
             None ''point'')"
    by (rule threshold_between [OF gs])
  have t2: "threshold dataset (Iter [v1, amax]) scalars False use_continuous preference =
      Inr (get_output (vtkThreshold dataset field ?r use_continuous (ThresholdBetween v1 amax))
             None ''point'')"
    by (rule threshold_between [OF gs])
  have r1: "threshold dataset (Iter [amin, v0]) ?r False use_continuous preference =
      Inr (get_output (vtkThreshold dataset field ?r use_continuous (ThresholdBetween amin v0))
             None ''point'')"
    using threshold_between [OF gs', of amin v0 use_continuous]
    by (simp only: resolve_scalars_idem)
  have r2: "threshold dataset (Iter [v1, amax]) ?r False use_continuous preference =
      Inr (get_output (vtkThreshold dataset field ?r use_continuous (ThresholdBetween v1 amax))
             None ''point'')"
    using threshold_between [OF gs', of v1 amax use_continuous]
    by (simp only: resolve_scalars_idem)
  have inv: "threshold dataset (Iter [v0, v1]) scalars True use_continuous preference =
      Inr (get_output (vtkAppendFilter
        [get_output (vtkThreshold dataset field ?r use_continuous (ThresholdBetween amin v0))
             None ''point'',
         get_output (vtkThreshold dataset field ?r use_continuous (ThresholdBetween v1 amax))
             None ''point'']) None ''point'')"
    using h
    by (simp add: threshold.simps [of dataset "Iter [v0, v1]" scalars True use_continuous preference]
          Let_def seq_item_pair r1 r2)
  from t1 t2 inv show "\<exists>t1 t2.
       threshold dataset (Iter [amin, v0]) scalars False use_continuous preference = Inr t1
     \<and> t1 = get_output (vtkThreshold dataset field ?r use_continuous (ThresholdBetween amin v0))
              None ''point''
     \<and> threshold dataset (Iter [v1, amax]) scalars False use_continuous preference = Inr t2
     \<and> t2 = get_output (vtkThreshold dataset field ?r use_continuous (ThresholdBetween v1 amax))
              None ''point''
     \<and> threshold dataset (Iter [v0, v1]) scalars True use_continuous preference =
         Inr (get_output (vtkAppendFilter [t1, t2]) None ''point'')"
    by blast
next
  assume "get_scalar dataset
        (case scalars of None \<Rightarrow> snd (active_scalar_info dataset) | Some s \<Rightarrow> Some s)
        preference = Inr (None, field)"
  then show "threshold dataset (Iter [v0, v1]) scalars True use_continuous preference =
        Inl (AssertionError ''No arrays present to threshold.'')"
    by (rule threshold_no_array)
next
  assume "get_scalar dataset
        (case scalars of None \<Rightarrow> snd (active_scalar_info dataset) | Some s \<Rightarrow> Some s)
        preference = Inr (None, field)"
  then show "\<forall>a b. threshold dataset (Iter [a, b]) scalars False use_continuous preference =
        Inl (AssertionError ''No arrays present to threshold.'')"
    by (simp add: threshold_no_array)
qed

lemma unit_cube_range:
  "nanmin [Finite 0, NaN, Finite 5, Finite 10] = Inr (Finite 0)"
  "nanmax [Finite 0, NaN, Finite 5, Finite 10] = Inr (Finite 10)"
  by (simp_all add: nanmin_def nanmax_def finite_values_def)

theorem threshold_inverted_range_witness:
  "threshold unit_cube (Iter [Finite 3, Finite 7]) None True False ''cell'' =
     Inr (Wrapped
       (vtkAppendFilter
          [Wrapped (vtkThreshold unit_cube (Some 1) (Some ''temp'') False
                      (ThresholdBetween (Finite 0) (Finite 3))) (Some (1, Some ''temp'')),
           Wrapped (vtkThreshold unit_cube (Some 1) (Some ''temp'') False
                      (ThresholdBetween (Finite 7) (Finite 10))) (Some (1, Some ''temp''))])
       (Some (1, Some ''temp'')))
   \<and> threshold unit_cube (Iter [Finite 0, Finite 3]) None False False ''cell'' =
       Inr (Wrapped (vtkThreshold unit_cube (Some 1) (Some ''temp'') False
                      (ThresholdBetween (Finite 0) (Finite 3))) (Some (1, Some ''temp'')))
   \<and> threshold unit_cube (Iter [Finite 7, Finite 10]) None False False ''cell'' =
       Inr (Wrapped (vtkThreshold unit_cube (Some 1) (Some ''temp'') False
                      (ThresholdBetween (Finite 7) (Finite 10))) (Some (1, Some ''temp'')))"
proof -
  have gs: "get_scalar unit_cube
      (case None of None \<Rightarrow> snd (active_scalar_info unit_cube) | Some s \<Rightarrow> Some s)
      ''cell'' = Inr (Some [Finite 0, NaN, Finite 5, Finite 10], Some 1)"
    by (simp add: unit_cube_fields)
  show ?thesis
    using threshold_inverted_range [of unit_cube None "''cell''"
        "[Finite 0, NaN, Finite 5, Finite 10]" "Some 1" "Finite 0" "Finite 10"
        "Finite 3" False "Finite 7"] gs unit_cube_range
    by (auto simp: get_output_plain unit_cube_fields)
qed

subsection \<open>Threshold by percent\<close>

lemma check_percent_cases:
  "check_percent (Finite p) =
     (if 100 < p then Inl (RuntimeError ''Percentage ({}) is out of range (0, 1).'')
      else if p < 1 / 10 ^ 10
      then Inl (RuntimeError ''Percentage ({}) is too close to zero or negative.'')
      else Inr (Finite (if 1 \<le> p then p / 100 else p)))"
  by (simp add: check_percent_def Let_def)

lemma check_percent_NaN: "check_percent NaN = Inr NaN"
  by (simp add: check_percent_def)

lemma get_val_error:
  "check_percent p = Inl e \<Longrightarrow> get_val p dmin dmax = Inl e"
  by (simp add: get_val_def)

lemma threshold_percent_error:
  assumes "get_data_range dataset
             (case scalars of None \<Rightarrow> snd (active_scalar_info dataset) | Some s \<Rightarrow> Some s)
             (Some preference) = Inr (dmin, dmax)"
    and "check_percent p = Inl e"
  shows "threshold_percent dataset (Percent p) scalars invert use_continuous preference = Inl e"
  using assms by (simp add: threshold_percent_def get_val_error)

lemma fadd_NaN: "fadd x NaN = NaN"
  by (cases x) simp_all

lemma threshold_percent_NaN:
  assumes "get_data_range dataset
             (case scalars of None \<Rightarrow> snd (active_scalar_info dataset) | Some s \<Rightarrow> Some s)
             (Some preference) = Inr (dmin, dmax)"
  shows "threshold_percent dataset (Percent NaN) scalars invert use_continuous preference =
           threshold dataset (Single NaN) scalars invert use_continuous preference"
  using assms by (simp add: threshold_percent_def get_val_def check_percent_NaN fadd_NaN)

text \<open>
  C3, as amended. For a percent that is a number, \<open>_check_percent\<close> divides a
  percent of at least 1 by 100 and raises a RuntimeError exactly when the percent is above
  100 or below 1e-10; an accepted number is normalised into the closed interval from 1e-10
  to 1, and with the data range at hand \<open>threshold_percent\<close> raises that error. So
  0 and 1e-11 fail and 150 fails, while 1.5 is taken as 1.5 percent. A NaN percent fails
  none of the comparisons: it is returned as it is, and the threshold runs with NaN.
\<close>

theorem check_percent_range:
  "check_percent (Finite p) =
     (if 100 < p then Inl (RuntimeError ''Percentage ({}) is out of range (0, 1).'')
      else if p < 1 / 10 ^ 10
      then Inl (RuntimeError ''Percentage ({}) is too close to zero or negative.'')
      else Inr (Finite (if 1 \<le> p then p / 100 else p)))
   \<and> check_percent NaN = Inr NaN
   \<and> (get_data_range dataset
         (case scalars of None \<Rightarrow> snd (active_scalar_info dataset) | Some s \<Rightarrow> Some s)
         (Some preference) = Inr (dmin, dmax) \<longrightarrow>
       threshold_percent dataset (Percent NaN) scalars invert use_continuous preference =
         threshold dataset (Single NaN) scalars invert use_continuous preference)
   \<and> (\<forall>q. check_percent percent = Inr q \<longrightarrow>
        (percent = NaN \<and> q = NaN) \<or> (\<exists>r. q = Finite r \<and> 1 / 10 ^ 10 \<le> r \<and> r \<le> 1))
   \<and> (get_data_range dataset
         (case scalars of None \<Rightarrow> snd (active_scalar_info dataset) | Some s \<Rightarrow> Some s)
         (Some preference) = Inr (dmin, dmax)
       \<and> (100 < p \<or> p < 1 / 10 ^ 10) \<longrightarrow>
       (\<exists>msg. threshold_percent dataset (Percent (Finite p)) scalars invert use_continuous
                 preference = Inl (RuntimeError msg)))"
proof (intro conjI allI impI)
  show "check_percent (Finite p) =
     (if 100 < p then Inl (RuntimeError ''Percentage ({}) is out of range (0, 1).'')
      else if p < 1 / 10 ^ 10
      then Inl (RuntimeError ''Percentage ({}) is too close to zero or negative.'')
      else Inr (Finite (if 1 \<le> p then p / 100 else p)))"
    by (rule check_percent_cases)
next
  show "check_percent NaN = Inr NaN" by (rule check_percent_NaN)
next
  assume "get_data_range dataset
         (case scalars of None \<Rightarrow> snd (active_scalar_info dataset) | Some s \<Rightarrow> Some s)
         (Some preference) = Inr (dmin, dmax)"
  then show "threshold_percent dataset (Percent NaN) scalars invert use_continuous preference =
         threshold dataset (Single NaN) scalars invert use_continuous preference"
    by (simp add: threshold_percent_NaN)
next
  fix q assume ok: "check_percent percent = Inr q"
  show "(percent = NaN \<and> q = NaN) \<or> (\<exists>r. q = Finite r \<and> 1 / 10 ^ 10 \<le> r \<and> r \<le> 1)"
  proof (cases percent)
    case NaN
    with ok show ?thesis by (simp add: check_percent_NaN)
  next
    case (Finite x)
    with ok have q: "\<not> 100 < x" "\<not> x < 1 / 10 ^ 10"
        "q = Finite (if 1 \<le> x then x / 100 else x)"
      by (auto simp: check_percent_cases split: if_splits)
    let ?r = "if 1 \<le> x then x / 100 else x"
    have lo: "1 / 10 ^ 10 \<le> ?r"
    proof (cases "1 \<le> x")
      case True
      then have "1 / 100 \<le> ?r" by simp
      moreover have "(1::real) / 10 ^ 10 \<le> 1 / 100" by simp
      ultimately show ?thesis by linarith
    next
      case False
      then show ?thesis using q by simp
    qed
    have hi: "?r \<le> 1" using q by (auto split: if_splits)
    from q(3) lo hi show ?thesis by blast
  qed
next
  assume h: "get_data_range dataset
         (case scalars of None \<Rightarrow> snd (active_scalar_info dataset) | Some s \<Rightarrow> Some s)
         (Some preference) = Inr (dmin, dmax)
       \<and> (100 < p \<or> p < 1 / 10 ^ 10)"
  then obtain msg where "check_percent (Finite p) = Inl (RuntimeError msg)"
    by (auto simp: check_percent_cases)
  with h threshold_percent_error show
    "\<exists>msg. threshold_percent dataset (Percent (Finite p)) scalars invert use_continuous
              preference = Inl (RuntimeError msg)"
    by blast
qed

theorem check_percent_range_witness:
  "check_percent (Finite 0) =
     Inl (RuntimeError ''Percentage ({}) is too close to zero or negative.'')
   \<and> check_percent (Finite (1 / 10 ^ 11)) =
       Inl (RuntimeError ''Percentage ({}) is too close to zero or negative.'')
   \<and> check_percent (Finite 150) = Inl (RuntimeError ''Percentage ({}) is out of range (0, 1).'')
   \<and> check_percent (Finite 50) = Inr (Finite (1 / 2))
   \<and> check_percent NaN = Inr NaN
   \<and> (\<exists>msg. threshold_percent unit_cube (Percent (Finite 0)) None False False ''cell''
               = Inl (RuntimeError msg))
   \<and> (\<exists>msg. threshold_percent unit_cube (Percent (Finite (1 / 10 ^ 11))) None False False
               ''cell'' = Inl (RuntimeError msg))"
proof -
  have rng: "get_data_range unit_cube
         (case None of None \<Rightarrow> snd (active_scalar_info unit_cube) | Some s \<Rightarrow> Some s)
         (Some ''cell'') = Inr (Finite 0, Finite 10)"
    by (simp add: unit_cube_fields)
  have a: "check_percent (Finite 0) =
      Inl (RuntimeError ''Percentage ({}) is too close to zero or negative.'')"
    using check_percent_range [where p = 0] by simp
  have b: "check_percent (Finite (1 / 10 ^ 11)) =
       Inl (RuntimeError ''Percentage ({}) is too close to zero or negative.'')"
    using check_percent_range [where p = "1 / 10 ^ 11"] by simp
  have c: "check_percent (Finite 150) =
      Inl (RuntimeError ''Percentage ({}) is out of range (0, 1).'')"
    using check_percent_range [where p = 150] by simp
  have d: "check_percent (Finite 50) = Inr (Finite (1 / 2))"
    using check_percent_range [where p = 50] by simp
  have n: "check_percent NaN = Inr NaN"
    using check_percent_range [where p = 0] by blast
  have e: "\<exists>msg. threshold_percent unit_cube (Percent (Finite 0)) None False False ''cell''
               = Inl (RuntimeError msg)"
    using check_percent_range [where p = 0 and dataset = unit_cube and scalars = None
        and preference = "''cell''" and dmin = "Finite 0" and dmax = "Finite 10"
        and invert = False and use_continuous = False] rng
    by simp
  have f: "\<exists>msg. threshold_percent unit_cube (Percent (Finite (1 / 10 ^ 11))) None False False
               ''cell'' = Inl (RuntimeError msg)"
    using check_percent_range [where p = "1 / 10 ^ 11" and dataset = unit_cube
        and scalars = None and preference = "''cell''" and dmin = "Finite 0"
        and dmax = "Finite 10" and invert = False and use_continuous = False] rng
    by simp
  from a b c d n e f show ?thesis by blast
qed

text \<open>The claim as stated fails: a percent of 1.5 is accepted (as 0.015, and the
  threshold runs), and so is the normalised value 1e-10 itself.\<close>

theorem threshold_percent_150_counterexample:
  "check_percent (Finite (3 / 2)) = Inr (Finite (3 / 200))
   \<and> threshold_percent unit_cube (Percent (Finite (3 / 2))) None False False ''cell'' =
       Inr (Wrapped (vtkThreshold unit_cube (Some 1) (Some ''temp'') False
                       (ThresholdByUpper (Finite (3 / 20))))
              (Some (1, Some ''temp'')))
   \<and> check_percent (Finite (1 / 10 ^ 10)) = Inr (Finite (1 / 10 ^ 10))"
proof -
  have a: "check_percent (Finite (3 / 2)) = Inr (Finite (3 / 200))"
    by (simp add: check_percent_cases)
  have b: "check_percent (Finite (1 / 10 ^ 10)) = Inr (Finite (1 / 10 ^ 10))"
    by (simp add: check_percent_cases)
  have c: "threshold_percent unit_cube (Percent (Finite (3 / 2))) None False False ''cell'' =
       Inr (Wrapped (vtkThreshold unit_cube (Some 1) (Some ''temp'') False
                       (ThresholdByUpper (Finite (3 / 20))))
              (Some (1, Some ''temp'')))"
    by (simp add: threshold_percent_def get_val_def a threshold.simps get_output_plain
          unit_cube_fields Let_def)
  from a b c show ?thesis by blast
qed

subsection \<open>Slices along an axis\<close>













lemma exact_arith_fields:
  "fl_add exact_arith (Fin u) (Fin v) = Fin (u + v)"
  "fl_sub exact_arith (Fin u) (Fin v) = Fin (u - v)"
  "fl_mul exact_arith (Fin u) (Fin v) = Fin (u * v)"
  "fl_0_01 exact_arith = Fin (1 / 100)"
  "np_linspace exact_arith (Fin u) (Fin v) n =
     (case linspace u v n of Inl e \<Rightarrow> Inl e | Inr xs \<Rightarrow> Inr (map Fin xs))"
  by (simp_all add: exact_arith_def exact_op_def exact_linspace_def)

lemma upt_small: "[0..<2] = [0, 1::nat]" "[0..<5] = [0, 1, 2, 3, 4::nat]"
  by code_simp+








lemma slice_int_fails: "\<exists>e. slice dataset (PyInt k) origin gt = Inl e"
  by (simp add: slice_def generate_plane_def normal_item_def Let_def)

lemma slice_loop_int_fails:
  assumes "idx \<noteq> []"
  shows "\<exists>e. slice_loop dataset (PyInt k) ax rng gt idx cntr blocks = Inl e"
proof -
  from assms obtain i rest where idx: "idx = i # rest" by (cases idx) auto
  show ?thesis
  proof (cases "seq_item rng (int i)")
    case (Inl e)
    then show ?thesis by (simp add: idx)
  next
    case v: (Inr v)
    show ?thesis
    proof (cases v)
      case (Fin x)
      show ?thesis
      proof (cases "seq_assign cntr ax x")
        case (Inl e)
        then show ?thesis by (simp add: idx v Fin)
      next
        case c: (Inr c)
        obtain e where "slice dataset (PyInt k) (Some c) gt = Inl e"
          using slice_int_fails by blast
        then show ?thesis by (simp add: idx v Fin c)
      qed
    next
      case PosInf
      then show ?thesis by (cases "seq_assign cntr ax 0") (simp_all add: idx v)
    next
      case NegInf
      then show ?thesis by (cases "seq_assign cntr ax 0") (simp_all add: idx v)
    next
      case NotANumber
      then show ?thesis by (cases "seq_assign cntr ax 0") (simp_all add: idx v)
    qed
  qed
qed

lemma sum_bind_fails:
  "(\<And>v. \<exists>e. f v = Inl e) \<Longrightarrow> \<exists>e. (case x of Inl e \<Rightarrow> Inl e | Inr v \<Rightarrow> f v) = Inl e"
  by (cases x) auto

text \<open>
  C5. With a numeric axis the integer is passed on to \<open>slice\<close> as its normal, which
  cannot be subscripted: for a count of at least 1 \<open>slice_along_axis\<close> raises an
  error whatever the dataset and the float arithmetic, so it never produces the slices of
  the corresponding axis name. An axis name other than x, y, z raises a RuntimeError.
\<close>

theorem slice_along_axis_numeric_axis_fails:
  "(1 \<le> n \<longrightarrow>
      (\<exists>e. slice_along_axis fa dataset n (PyInt k) tolerance generate_triangles = Inl e))
   \<and> (map_of [(''x'', 0::int), (''y'', 1), (''z'', 2)] s = None \<longrightarrow>
        slice_along_axis fa dataset n (PyStr s) tolerance generate_triangles =
          Inl (RuntimeError ''Axis ({}) not understood''))"
proof (intro conjI impI)
  assume n: "1 \<le> n"
  then have ne: "[0..<nat n] \<noteq> []" by simp
  have loop: "\<And>rng. \<exists>e. slice_loop dataset (PyInt k) k rng generate_triangles [0..<nat n]
                        (center dataset) [] = Inl e"
    by (rule slice_loop_int_fails [OF ne])
  show "\<exists>e. slice_along_axis fa dataset n (PyInt k) tolerance generate_triangles = Inl e"
    unfolding slice_along_axis_def pyarg.case sum.case
    by (intro sum_bind_fails loop)
next
  assume "map_of [(''x'', 0::int), (''y'', 1), (''z'', 2)] s = None"
  then show "slice_along_axis fa dataset n (PyStr s) tolerance generate_triangles =
          Inl (RuntimeError ''Axis ({}) not understood'')"
    by (simp only: slice_along_axis_def pyarg.case option.case sum.case)
qed

theorem slice_along_axis_numeric_axis_fails_witness:
  "slice_along_axis exact_arith unit_cube 5 (PyInt 0) None False = Inl TypeError
   \<and> (\<exists>e. slice_along_axis exact_arith unit_cube 5 (PyInt 0) None False = Inl e)
   \<and> slice_along_axis exact_arith unit_cube 5 (PyStr ''w'') None False =
       Inl (RuntimeError ''Axis ({}) not understood'')"
proof -
  have a: "slice_along_axis exact_arith unit_cube 5 (PyInt 0) None False = Inl TypeError"
    by (simp add: slice_along_axis_def bounds_seq_def unit_cube_fields seq_item_def
          seq_assign_def exact_arith_fields linspace_def upt_small center_def slice_def
          generate_plane_def normal_item_def)
  have w: "map_of [(''x'', 0::int), (''y'', 1), (''z'', 2)] ''w'' = None" by simp
  show ?thesis
    using a w slice_along_axis_numeric_axis_fails [where n = 5 and fa = exact_arith
        and dataset = unit_cube and k = 0 and tolerance = None and generate_triangles = False
        and s = "''w''"]
    by simp
qed

end
